theory Spec2Isabelle
  imports Main
begin

section \<open>Result generation for a scenario: admission, orchestration and cancellation\<close>

text \<open>
  A shallow embedding of \<^verbatim>\<open>app/routes/scenarios--gen-results.js\<close>: the two route handlers
  (POST and DELETE on \<^verbatim>\<open>/projects/{projId}/scenarios/{scId}/generate\<close>), the detached
  orchestrator \<^verbatim>\<open>generateResults\<close> with its three stages, and \<^verbatim>\<open>killAnalysisProcess\<close>.

  The module's state (the \<^verbatim>\<open>runningProcesses\<close> object), the database tables it queries and
  the object storage are fields of one record that every function takes and returns.
  What the module does to the outside (spawning a program, starting a service, killing a
  handle) is appended to a list of events. What the outside answers (exit codes, stderr
  chunks, completion signals) and the configuration are read from a record of inputs.
  One call is followed from its start to the point where its promise settles, or is seen
  never to settle; calls are not interleaved.
\<close>

subsection \<open>JavaScript values, template literals, errors\<close>

text \<open>
  Identifiers are integers (route parameters validated as numbers, database keys).
  A template literal prints an integer in decimal, with a leading minus sign when it is
  negative; fractions and magnitudes from \<open>10\<^sup>2\<^sup>1\<close> on, which JavaScript prints in
  exponent form, are outside this model.
\<close>

definition digit :: "nat \<Rightarrow> char" where
  "digit d = (if d = 0 then CHR ''0'' else if d = 1 then CHR ''1'' else if d = 2 then CHR ''2''
     else if d = 3 then CHR ''3'' else if d = 4 then CHR ''4'' else if d = 5 then CHR ''5''
     else if d = 6 then CHR ''6'' else if d = 7 then CHR ''7'' else if d = 8 then CHR ''8''
     else CHR ''9'')"

fun show_nat :: "nat \<Rightarrow> string" where
  "show_nat n = (if n < 10 then [digit n] else show_nat (n div 10) @ [digit (n mod 10)])"

declare show_nat.simps [simp del]

definition show_int :: "int \<Rightarrow> string" where
  "show_int i = (if i < 0 then CHR ''-'' # show_nat (nat (- i)) else show_nat (nat i))"

text \<open>
  The errors the module throws or receives. \<open>TypeError\<close> carries what was read from
  what (its message text depends on the engine and no branch of the module looks at it);
  \<open>Error\<close> carries its message.
\<close>

datatype error =
    DataConflictError string
  | ScenarioNotFoundError
  | ProjectNotFoundError
  | AlreadyRunningError
  | TypeError string
  | Error string

fun message :: "error \<Rightarrow> string" where
  "message (DataConflictError m) = m"
| "message ScenarioNotFoundError = ''Scenario not found''"
| "message ProjectNotFoundError = ''Project not found''"
| "message AlreadyRunningError = ''Operation already running''"
| "message (TypeError p) = ''Cannot read property '' @ p"
| "message (Error m) = m"

text \<open>\<^verbatim>\<open>str.match(/not exist/)\<close> is truthy exactly when the text occurs somewhere in \<open>str\<close>.\<close>

fun is_prefix :: "string \<Rightarrow> string \<Rightarrow> bool" where
  "is_prefix [] ys = True"
| "is_prefix (x # xs) [] = False"
| "is_prefix (x # xs) (y # ys) = (x = y \<and> is_prefix xs ys)"

fun contains :: "string \<Rightarrow> string \<Rightarrow> bool" where
  "contains pat [] = is_prefix pat []"
| "contains pat (c # cs) = (is_prefix pat (c # cs) \<or> contains pat cs)"

definition match_not_exist :: "string \<Rightarrow> bool" where
  "match_not_exist m = contains ''not exist'' m"

text \<open>
  What a promise comes to. \<open>Pending\<close> is a promise that is never settled.
  \<open>Uncaught e\<close> is an exception thrown inside an event callback: nothing catches it and
  the promise the callback was to settle stays pending.
\<close>

datatype 'a promise = Resolved 'a | Rejected error | Pending | Uncaught error

text \<open>A value read from a settings row: \<^verbatim>\<open>undefined\<close>, \<^verbatim>\<open>null\<close>, a number or a string.\<close>

datatype jsval = Undefined | Null | Num int | Str string

subsection \<open>Configuration and the answers of the outside\<close>

text \<open>
  \<^verbatim>\<open>config\<close> is imported from \<^verbatim>\<open>../config\<close>, which is not part of the sources at hand: its
  values are parameters. A value printed inside a template literal is given as the text
  it prints as. \<open>hyperSize\<close> is only tested for truthiness before it is printed.
\<close>

record config =
  instanceId :: string
  service :: string
  container :: string
  db_uri :: string
  storageHost :: string
  storagePort :: string
  hyperAccess :: string
  hyperSecret :: string
  hyperSize :: "string option"
  storage_engine :: string
  storage_accessKey :: string
  storage_secretKey :: string
  storage_bucket :: string
  storage_region :: string

text \<open>
  How a child process ends: with an exit code, or by a signal (the \<^verbatim>\<open>close\<close> callback then
  receives \<^verbatim>\<open>null\<close> for the code). The chunks are what arrived on its stderr, in order.
\<close>

datatype exit_code = Exit int | Signalled

record child =
  exit_with :: exit_code
  stderr_chunks :: "string list"

record inputs =
  DS_ENV :: string
  cfg :: config
  date_parse :: "string \<Rightarrow> int option"
  load_fault :: "error option"
  closeDatabase_fails :: "error option"
  updateRN_complete :: "error option"
  genVT_fails :: "error option"
  pull_child :: child
  run_child :: child

text \<open>
  \<open>DS_ENV\<close> is \<^verbatim>\<open>process.env.DS_ENV\<close>. \<open>date_parse\<close> is the date parser behind
  \<^verbatim>\<open>new Date(string).getTime()\<close>, \<open>None\<close> standing for \<^verbatim>\<open>NaN\<close>. \<open>load_fault\<close> is an error
  that makes \<^verbatim>\<open>loadByData\<close> fail for a reason of the database itself. The next three
  are the error, if any, that \<^verbatim>\<open>closeDatabase\<close> rejects with, that the
  \<^verbatim>\<open>complete\<close> signal of the export service carries, and that the tile service's promise
  rejects with. Every other database query is taken to succeed, and every child
  process to start and to close.
\<close>

subsection \<open>The stores\<close>

datatype status = NotStarted | Running | Completed | Failed

text \<open>
  The data of a log entry: \<^verbatim>\<open>{message: text}\<close>, \<^verbatim>\<open>{error: text}\<close>, or \<^verbatim>\<open>{error: e}\<close> with
  \<open>e\<close> an error object.
\<close>

datatype payload = Message string | ErrorText string | ErrorObject error

datatype log_entry = Logged string payload | Closing status payload

record op_record =
  op_id :: nat
  op_name :: string
  op_projId :: int
  op_scId :: int
  op_status :: status
  op_log :: "log_entry list"

record project =
  project_status :: string

record scenario_row =
  sc_id :: int
  sc_project_id :: int

record file_row =
  file_id :: nat
  file_project_id :: int
  file_scenario_id :: int
  file_type :: string
  file_path :: string

record result_row =
  res_project_id :: int
  res_scenario_id :: int

text \<open>
  A stage handle is the object stored in a slot of the registry: the service runner of
  the road-network export, or the object that \<^verbatim>\<open>createRoadNetworkVT\<close> returns.
\<close>

datatype handle =
    ServiceRunner string int int "nat option"
  | RoadNetworkVT int int "nat option" string

text \<open>
  An entry of \<^verbatim>\<open>runningProcesses\<close>. A slot that was never assigned (\<^verbatim>\<open>undefined\<close>) and a
  slot set to \<^verbatim>\<open>null\<close> are both \<open>None\<close>: the module only tests the slots for truthiness.
\<close>

record entry =
  updateRN_slot :: "handle option"
  genVT_slot :: "handle option"

datatype event =
    CloseDatabase int int
  | ServiceStart handle
  | Spawn string "string list" "(string \<times> string) list"
  | Exec string "(string \<times> string) list"
  | Kill handle
  | UnhandledRejection error

text \<open>
  \<open>Spawn cmd args env\<close> is \<^verbatim>\<open>cp.spawn(cmd, args, {env: Object.assign({}, process.env, env)})\<close>
  and \<open>Exec\<close> likewise for \<^verbatim>\<open>cp.exec\<close>; \<open>env\<close> lists only what is laid over the process
  environment. \<open>UnhandledRejection e\<close> is a rejected promise that nothing ever handles.
  \<open>settings\<close> maps a scenario id and a key to the value of that row (one row per
  scenario and key); \<open>operations\<close> lists the operation records, the most recent first;
  \<open>launched\<close> lists the calls of \<^verbatim>\<open>generateResults\<close> that a handler made without awaiting
  them.
\<close>

record world =
  operations :: "op_record list"
  projects :: "int \<Rightarrow> project option"
  scenarios :: "scenario_row list"
  settings :: "int \<Rightarrow> string \<Rightarrow> jsval option"
  scenarios_files :: "file_row list"
  results :: "result_row list"
  bucket_objects :: "string set"
  runningProcesses :: "string \<Rightarrow> entry option"
  events :: "event list"
  launched :: "(int \<times> int) list"

definition emit :: "event \<Rightarrow> world \<Rightarrow> world" where
  "emit e w = w\<lparr>events := events w @ [e]\<rparr>"

subsection \<open>The Operation class\<close>

text \<open>
  Modelled from the spec: the class \<^verbatim>\<open>Operation\<close> of \<^verbatim>\<open>../utils/operation\<close>, which the module
  imports and which is not among the sources. Section 4.1 of the specification gives its
  states and transitions; the definitions below follow it. An object of the class holds
  the id and the status of the record it started or loaded; a new object holds none and
  is not started.
\<close>

record operation =
  obj_id :: "nat option"
  obj_status :: status

text \<open>Modelled from the spec: \<^verbatim>\<open>new Operation(db)\<close>, an object in the state not-started.\<close>

definition new_Operation :: operation where
  "new_Operation = \<lparr>obj_id = None, obj_status = NotStarted\<rparr>"

definition same_identity :: "string \<Rightarrow> int \<Rightarrow> int \<Rightarrow> op_record \<Rightarrow> bool" where
  "same_identity name p s r = (op_name r = name \<and> op_projId r = p \<and> op_scId r = s)"

text \<open>
  Modelled from the spec: \<^verbatim>\<open>loadByData\<close> of the absent class fails when no record has
  the identity, and loads the most recent one otherwise. The module recognises the
  failure by the words \<^verbatim>\<open>not exist\<close> in the message.
\<close>

definition loadByData :: "inputs \<Rightarrow> world \<Rightarrow> string \<Rightarrow> int \<Rightarrow> int \<Rightarrow> error + operation" where
  "loadByData inp w name p s =
     (case load_fault inp of
        Some e \<Rightarrow> Inl e
      | None \<Rightarrow>
          (case find (same_identity name p s) (operations w) of
             None \<Rightarrow> Inl (Error ''Operation does not exist'')
           | Some r \<Rightarrow> Inr \<lparr>obj_id = Some (op_id r), obj_status = op_status r\<rparr>))"

text \<open>
  Modelled from the spec: \<^verbatim>\<open>isStarted\<close>, \<^verbatim>\<open>isCompleted\<close> and \<^verbatim>\<open>getId\<close> of the absent class:
  started is the status running, completed is the status completed or error.
\<close>

definition isStarted :: "operation \<Rightarrow> bool" where
  "isStarted ob = (obj_status ob = Running)"

definition isCompleted :: "operation \<Rightarrow> bool" where
  "isCompleted ob = (obj_status ob = Completed \<or> obj_status ob = Failed)"

definition getId :: "operation \<Rightarrow> nat option" where
  "getId ob = obj_id ob"

text \<open>
  Modelled from the spec: the id that the database gives a new record of the absent
  class, larger than every id in use.
\<close>

definition new_id :: "op_record list \<Rightarrow> nat" where
  "new_id rs = Suc (fold max (map op_id rs) 0)"

text \<open>
  Modelled from the spec: \<^verbatim>\<open>start\<close> of the absent class fails when an unfinished operation
  with the identity exists, and otherwise stores a new record in the running state.
\<close>

definition start :: "string \<Rightarrow> int \<Rightarrow> int \<Rightarrow> world \<Rightarrow> error + (operation \<times> world)" where
  "start name p s w =
     (if list_ex (\<lambda>r. same_identity name p s r \<and> op_status r = Running) (operations w)
      then Inl AlreadyRunningError
      else
        (let i = new_id (operations w);
             r = \<lparr>op_id = i, op_name = name, op_projId = p, op_scId = s,
                  op_status = Running, op_log = []\<rparr>
         in Inr (\<lparr>obj_id = Some i, obj_status = Running\<rparr>, w\<lparr>operations := r # operations w\<rparr>)))"

text \<open>
  Modelled from the spec: \<^verbatim>\<open>log\<close> of the absent class appends an entry to the record the
  object holds.
\<close>

definition update_record :: "nat option \<Rightarrow> (op_record \<Rightarrow> op_record) \<Rightarrow> world \<Rightarrow> world" where
  "update_record i f w =
     w\<lparr>operations := map (\<lambda>r. if Some (op_id r) = i then f r else r) (operations w)\<rparr>"

definition log :: "string \<Rightarrow> payload \<Rightarrow> operation \<Rightarrow> world \<Rightarrow> world" where
  "log ev d ob w = update_record (obj_id ob) (\<lambda>r. r\<lparr>op_log := op_log r @ [Logged ev d]\<rparr>) w"

text \<open>
  Modelled from the spec: \<^verbatim>\<open>finish\<close> of the absent class sets the terminal status and
  appends the closing entry. The specification leaves open what it does on an object
  that holds no record; here it then changes no record.
\<close>

definition finish :: "status \<Rightarrow> payload \<Rightarrow> operation \<Rightarrow> world \<Rightarrow> operation \<times> world" where
  "finish st d ob w =
     (ob\<lparr>obj_status := st\<rparr>,
      update_record (obj_id ob) (\<lambda>r. r\<lparr>op_status := st, op_log := op_log r @ [Closing st d]\<rparr>) w)"

subsection \<open>Job key and container name\<close>

definition identifier_of :: "int \<Rightarrow> int \<Rightarrow> string" where
  "identifier_of p s = ''p'' @ show_int p @ '' s'' @ show_int s"

definition containerName :: "config \<Rightarrow> int \<Rightarrow> int \<Rightarrow> string" where
  "containerName c p s = instanceId c @ ''-analysisp'' @ show_int p @ ''s'' @ show_int s"

definition show_id :: "nat option \<Rightarrow> string" where
  "show_id i = (case i of None \<Rightarrow> ''null'' | Some n \<Rightarrow> show_nat n)"

definition set_entry :: "string \<Rightarrow> entry \<Rightarrow> world \<Rightarrow> world" where
  "set_entry k e w = w\<lparr>runningProcesses := (runningProcesses w)(k \<mapsto> e)\<rparr>"

definition delete_entry :: "string \<Rightarrow> world \<Rightarrow> world" where
  "delete_entry k w = w\<lparr>runningProcesses := (runningProcesses w)(k := None)\<rparr>"

subsection \<open>The decision to export the road network\<close>

text \<open>
  The query of \<^verbatim>\<open>generateResults\<close> returns the values of the rows of the scenario whose
  key is one of the three, ordered by key; the array is destructured into three
  variables, a missing position giving \<^verbatim>\<open>undefined\<close>.
\<close>

definition export_settings :: "world \<Rightarrow> int \<Rightarrow> jsval list" where
  "export_settings w s =
     List.map_filter (settings w s) [''res_gen_at'', ''rn_active_editing'', ''rn_updated_at'']"

definition at_index :: "jsval list \<Rightarrow> nat \<Rightarrow> jsval" where
  "at_index vs i = (if i < length vs then vs ! i else Undefined)"

text \<open>
  \<^verbatim>\<open>new Date(v).getTime()\<close>: a number is taken as milliseconds when it is within the range
  of a date, \<^verbatim>\<open>null\<close> as 0, a string is parsed, \<^verbatim>\<open>undefined\<close> gives \<^verbatim>\<open>NaN\<close>.
\<close>

definition getTime :: "inputs \<Rightarrow> jsval \<Rightarrow> int option" where
  "getTime inp v =
     (case v of
        Undefined \<Rightarrow> None
      | Null \<Rightarrow> Some 0
      | Num n \<Rightarrow> (if \<bar>n\<bar> \<le> 8640000000000000 then Some n else None)
      | Str t \<Rightarrow> date_parse inp t)"

text \<open>\<^verbatim>\<open>v === 0 ? v : (new Date(v)).getTime()\<close>\<close>

definition stamp :: "inputs \<Rightarrow> jsval \<Rightarrow> int option" where
  "stamp inp v = (if v = Num 0 then Some 0 else getTime inp v)"

text \<open>\<^verbatim>\<open>a > b\<close> on numbers, false as soon as one of them is \<^verbatim>\<open>NaN\<close>.\<close>

definition js_greater :: "int option \<Rightarrow> int option \<Rightarrow> bool" where
  "js_greater a b = (case (a, b) of (Some x, Some y) \<Rightarrow> y < x | _ \<Rightarrow> False)"

definition needExport :: "inputs \<Rightarrow> world \<Rightarrow> int \<Rightarrow> bool" where
  "needExport inp w s =
     (let vs = export_settings w s;
          genAt = at_index vs 0;
          activeEditing = at_index vs 1;
          rnUpdatedAt = at_index vs 2
      in if activeEditing = Str ''true''
         then js_greater (stamp inp rnUpdatedAt) (stamp inp genAt)
         else False)"

subsection \<open>The stages\<close>

text \<open>
  \<^verbatim>\<open>await\<close>: what follows runs only when the awaited promise resolved; a rejection is
  passed on, and nothing follows a promise that never settles.
\<close>

definition await :: "unit promise \<times> world \<Rightarrow> (world \<Rightarrow> unit promise \<times> world) \<Rightarrow> unit promise \<times> world" where
  "await r f = (case fst r of Resolved _ \<Rightarrow> f (snd r) | _ \<Rightarrow> r)"

definition closeDatabase :: "inputs \<Rightarrow> int \<Rightarrow> int \<Rightarrow> world \<Rightarrow> unit promise \<times> world" where
  "closeDatabase inp p s w =
     (case closeDatabase_fails inp of
        Some e \<Rightarrow> (Rejected e, emit (CloseDatabase p s) w)
      | None \<Rightarrow> (Resolved (), emit (CloseDatabase p s) w))"

text \<open>
  \<^verbatim>\<open>updateRN\<close> stores the service in the slot and starts it; the \<^verbatim>\<open>complete\<close> signal clears
  the slot, then rejects with the error it carries or resolves. Writing the slot of an
  entry that does not exist throws inside the promise's executor, which rejects it.
\<close>

definition updateRN :: "inputs \<Rightarrow> int \<Rightarrow> int \<Rightarrow> nat option \<Rightarrow> world \<Rightarrow> unit promise \<times> world" where
  "updateRN inp p s opId w =
     (let k = identifier_of p s;
          sv = ServiceRunner ''export-road-network'' p s opId
      in case runningProcesses w k of
           None \<Rightarrow> (Rejected (TypeError ''updateRN of undefined''), w)
         | Some e \<Rightarrow>
             (let w1 = emit (ServiceStart sv) (set_entry k (e\<lparr>updateRN_slot := Some sv\<rparr>) w);
                  w2 = set_entry k (e\<lparr>updateRN_slot := None\<rparr>) w1
              in case updateRN_complete inp of
                   Some err \<Rightarrow> (Rejected err, w2)
                 | None \<Rightarrow> (Resolved (), w2)))"

text \<open>
  \<^verbatim>\<open>generateTiles\<close> reads the path of the scenario's road-network file (a \<^verbatim>\<open>TypeError\<close> when
  there is no such row), stores the tile service in the slot, awaits its promise and
  clears the slot after it resolved.
\<close>

definition generateTiles :: "inputs \<Rightarrow> int \<Rightarrow> int \<Rightarrow> operation \<Rightarrow> world \<Rightarrow> unit promise \<times> world" where
  "generateTiles inp p s ob w =
     (let k = identifier_of p s
      in case find (\<lambda>f. file_scenario_id f = s \<and> file_type f = ''road-network'') (scenarios_files w) of
           None \<Rightarrow> (Rejected (TypeError ''path of undefined''), w)
         | Some rnFile \<Rightarrow>
             (let sv = RoadNetworkVT p s (getId ob) (file_path rnFile)
              in case runningProcesses w k of
                   None \<Rightarrow> (Rejected (TypeError ''genVT of undefined''), emit (ServiceStart sv) w)
                 | Some e \<Rightarrow>
                     (let w1 = set_entry k (e\<lparr>genVT_slot := Some sv\<rparr>) (emit (ServiceStart sv) w)
                      in case genVT_fails inp of
                           Some err \<Rightarrow> (Rejected err, w1)
                         | None \<Rightarrow> (Resolved (), set_entry k (e\<lparr>genVT_slot := None\<rparr>) w1))))"

definition hyper_env :: "config \<Rightarrow> (string \<times> string) list" where
  "hyper_env c = [(''HYPER_ACCESS'', hyperAccess c), (''HYPER_SECRET'', hyperSecret c)]"

text \<open>
  \<^verbatim>\<open>pullImage\<close> spawns the configured service with \<^verbatim>\<open>pull\<close> and resolves when the child
  closes, whatever the exit code.
\<close>

definition pullImage :: "inputs \<Rightarrow> int \<Rightarrow> int \<Rightarrow> world \<Rightarrow> unit promise \<times> world" where
  "pullImage inp p s w =
     (let c = cfg inp
      in (Resolved (), emit (Spawn (service c) [''pull'', container c] (hyper_env c)) w))"

definition quoted :: "string \<Rightarrow> string" where
  "quoted t = CHR 0x27 # t @ [CHR 0x27]"

definition invalid_service :: "string \<Rightarrow> error" where
  "invalid_service sv =
     Error (sv @ '' is not a valid option. The analysis should be run on '' @ quoted ''docker''
            @ '' or '' @ quoted ''hyper'' @ ''. Check your config file or env variables.'')"

definition run_args :: "config \<Rightarrow> int \<Rightarrow> int \<Rightarrow> nat option \<Rightarrow> string list" where
  "run_args c p s opId =
     [''run'',
      ''--name'', containerName c p s,
      ''--rm'',
      ''-e'', ''DB_URI='' @ db_uri c,
      ''-e'', ''PROJECT_ID='' @ show_int p,
      ''-e'', ''SCENARIO_ID='' @ show_int s,
      ''-e'', ''OPERATION_ID='' @ show_id opId,
      ''-e'', ''STORAGE_HOST='' @ storageHost c,
      ''-e'', ''STORAGE_PORT='' @ storagePort c,
      ''-e'', ''STORAGE_ENGINE='' @ storage_engine c,
      ''-e'', ''STORAGE_ACCESS_KEY='' @ storage_accessKey c,
      ''-e'', ''STORAGE_SECRET_KEY='' @ storage_secretKey c,
      ''-e'', ''STORAGE_BUCKET='' @ storage_bucket c,
      ''-e'', ''STORAGE_REGION='' @ storage_region c,
      ''-e'', ''CONVERSION_DIR=/conversion'']"

text \<open>The stderr callback keeps the text of the chunk it saw last.\<close>

definition captured :: "child \<Rightarrow> string option" where
  "captured ch = (if stderr_chunks ch = [] then None else Some (last (stderr_chunks ch)))"

text \<open>\<^verbatim>\<open>new Error(error)\<close>: the message is empty when no chunk was seen.\<close>

definition process_error :: "child \<Rightarrow> error" where
  "process_error ch = Error (case captured ch of None \<Rightarrow> [] | Some t \<Rightarrow> t)"

text \<open>
  The part of \<^verbatim>\<open>runProcess\<close> from \<^verbatim>\<open>cp.spawn\<close> on. The \<^verbatim>\<open>close\<close> callback prints the code
  first (which throws when the child was ended by a signal), deletes the registry
  entry, and rejects on a code other than 0.
\<close>

definition spawn_run :: "inputs \<Rightarrow> int \<Rightarrow> int \<Rightarrow> string list \<Rightarrow> (string \<times> string) list \<Rightarrow> world \<Rightarrow> unit promise \<times> world" where
  "spawn_run inp p s args env w =
     (let w1 = emit (Spawn (service (cfg inp)) args env) w
      in case exit_with (run_child inp) of
           Signalled \<Rightarrow> (Uncaught (TypeError ''toString of null''), w1)
         | Exit code \<Rightarrow>
             (let w2 = delete_entry (identifier_of p s) w1
              in if code \<noteq> 0 then (Rejected (process_error (run_child inp)), w2)
                 else (Resolved (), w2)))"

text \<open>
  \<^verbatim>\<open>runProcess\<close>. In the \<^verbatim>\<open>default\<close> branch the executor returns
  \<^verbatim>\<open>Promise.reject(new Error(...))\<close>: the value an executor returns is dropped, neither
  \<^verbatim>\<open>resolve\<close> nor \<^verbatim>\<open>reject\<close> is called, so the promise of \<^verbatim>\<open>runProcess\<close> never settles, and
  the rejected promise that was created has no handler.
\<close>

definition truthy :: "string option \<Rightarrow> bool" where
  "truthy v = (case v of None \<Rightarrow> False | Some t \<Rightarrow> t \<noteq> [])"

definition runProcess :: "inputs \<Rightarrow> int \<Rightarrow> int \<Rightarrow> nat option \<Rightarrow> world \<Rightarrow> unit promise \<times> world" where
  "runProcess inp p s opId w =
     (let c = cfg inp; args = run_args c p s opId
      in if service c = ''docker''
         then spawn_run inp p s (args @ [''--network'', ''ram''] @ [container c]) [] w
         else if service c = ''hyper''
         then spawn_run inp p s
                (args @ (if truthy (hyperSize c)
                         then [''--size='' @ (case hyperSize c of None \<Rightarrow> [] | Some z \<Rightarrow> z)]
                         else [])
                      @ [container c])
                (hyper_env c) w
         else (Pending, emit (UnhandledRejection (invalid_service (service c))) w))"

definition spawnAnalysisProcess :: "inputs \<Rightarrow> int \<Rightarrow> int \<Rightarrow> nat option \<Rightarrow> world \<Rightarrow> unit promise \<times> world" where
  "spawnAnalysisProcess inp p s opId w =
     await (pullImage inp p s w) (runProcess inp p s opId)"

subsection \<open>The orchestrator\<close>

text \<open>The callback handed to \<^verbatim>\<open>setImmediatePromise\<close>.\<close>

definition stages :: "inputs \<Rightarrow> int \<Rightarrow> int \<Rightarrow> operation \<Rightarrow> bool \<Rightarrow> world \<Rightarrow> unit promise \<times> world" where
  "stages inp p s ob need w =
     (if need
      then await (closeDatabase inp p s w) (\<lambda>w1.
           await (updateRN inp p s (getId ob) w1) (\<lambda>w2.
           await (generateTiles inp p s ob w2) (\<lambda>w3.
           spawnAnalysisProcess inp p s (getId ob) w3)))
      else spawnAnalysisProcess inp p s (getId ob) w)"

text \<open>\<^verbatim>\<open>error.message || error\<close>\<close>

definition error_data :: "error \<Rightarrow> payload" where
  "error_data e = (if message e \<noteq> [] then ErrorText (message e) else ErrorObject e)"

text \<open>The \<^verbatim>\<open>catch\<close> block of \<^verbatim>\<open>generateResults\<close>.\<close>

definition handle_error :: "error \<Rightarrow> operation \<Rightarrow> world \<Rightarrow> unit promise \<times> world" where
  "handle_error e ob w =
     (if \<not> isCompleted ob then (Resolved (), snd (finish Failed (error_data e) ob w))
      else (Resolved (), w))"

text \<open>
  \<^verbatim>\<open>try { ... } catch (error) { ... }\<close> around the awaited stages: only a rejection enters
  the \<^verbatim>\<open>catch\<close> block.
\<close>

definition catch_error :: "operation \<Rightarrow> unit promise \<times> world \<Rightarrow> unit promise \<times> world" where
  "catch_error ob r = (case fst r of Rejected e \<Rightarrow> handle_error e ob (snd r) | _ \<Rightarrow> r)"

text \<open>\<^verbatim>\<open>if (!runningProcesses[identifier]) runningProcesses[identifier] = {}\<close>\<close>

definition ensure_entry :: "string \<Rightarrow> world \<Rightarrow> world" where
  "ensure_entry k w =
     (case runningProcesses w k of
        None \<Rightarrow> set_entry k \<lparr>updateRN_slot = None, genVT_slot = None\<rparr> w
      | Some _ \<Rightarrow> w)"

definition generateResults :: "inputs \<Rightarrow> int \<Rightarrow> int \<Rightarrow> world \<Rightarrow> unit promise \<times> world" where
  "generateResults inp p s w =
     (if DS_ENV inp = ''test'' then (Resolved (), w)
      else
        (case start ''generate-analysis'' p s w of
           Inl e \<Rightarrow> handle_error e new_Operation w
         | Inr (ob, w1) \<Rightarrow>
             (let w2 = log ''start'' (Message ''Analysis generation started'') ob w1;
                  w3 = ensure_entry (identifier_of p s) w2;
                  need = needExport inp w3 s
              in catch_error ob (stages inp p s ob need w3))))"

subsection \<open>Cancellation\<close>

definition killAnalysisProcess :: "inputs \<Rightarrow> int \<Rightarrow> int \<Rightarrow> world \<Rightarrow> unit promise \<times> world" where
  "killAnalysisProcess inp p s w =
     (if DS_ENV inp = ''test'' then (Resolved (), w)
      else
        (let k = identifier_of p s; c = cfg inp
         in case runningProcesses w k of
              None \<Rightarrow> (Rejected (TypeError ''updateRN of undefined''), w)
            | Some e \<Rightarrow>
                (case updateRN_slot e of
                   Some h \<Rightarrow> (Resolved (), set_entry k (e\<lparr>updateRN_slot := None\<rparr>) (emit (Kill h) w))
                 | None \<Rightarrow>
                     (case genVT_slot e of
                        Some h \<Rightarrow> (Resolved (), set_entry k (e\<lparr>genVT_slot := None\<rparr>) (emit (Kill h) w))
                      | None \<Rightarrow>
                          (if service c = ''hyper''
                           then (Resolved (),
                                 emit (Exec (service c @ '' rm -f '' @ containerName c p s) (hyper_env c)) w)
                           else if service c = ''docker''
                           then (Resolved (),
                                 emit (Exec (service c @ '' rm -f '' @ containerName c p s) []) w)
                           else (Rejected (invalid_service (service c)), w))))))"

subsection \<open>The route handlers\<close>

text \<open>
  A handler answers with \<^verbatim>\<open>reply({statusCode: 200, message})\<close> or with
  \<^verbatim>\<open>reply(getBoomResponseForError(error))\<close>; \<open>Boom e\<close> stands for the second, for the
  error \<open>e\<close> that was caught. \<open>NoReply\<close> is a handler that never gets to answer.
\<close>

datatype reply = Ok string | Boom error | NoReply

text \<open>
  Modelled from the spec: \<^verbatim>\<open>getProject\<close> of \<^verbatim>\<open>./projects--get\<close>, not among the sources:
  it returns the project, and fails with a not-found error when there is none.
\<close>

definition getProject :: "world \<Rightarrow> int \<Rightarrow> error + project" where
  "getProject w p = (case projects w p of None \<Rightarrow> Inl ProjectNotFoundError | Some pr \<Rightarrow> Inr pr)"

definition result_types :: "string list" where
  "result_types = [''results-csv'', ''results-json'', ''results-geojson'']"

definition result_files :: "world \<Rightarrow> int \<Rightarrow> int \<Rightarrow> file_row list" where
  "result_files w p s =
     filter (\<lambda>f. file_scenario_id f = s \<and> file_project_id f = p \<and> file_type f \<in> set result_types)
       (scenarios_files w)"

text \<open>
  Modelled from the spec: \<^verbatim>\<open>removeFile\<close> of \<^verbatim>\<open>../s3/utils\<close>, not among the sources, deletes
  the object stored under a path. The three deletions of the handler:
\<close>

definition delete_results :: "int \<Rightarrow> int \<Rightarrow> world \<Rightarrow> world" where
  "delete_results p s w =
     (let files = result_files w p s; ids = map file_id files
      in w\<lparr>bucket_objects := bucket_objects w - set (map file_path files),
           scenarios_files := filter (\<lambda>f. file_id f \<notin> set ids) (scenarios_files w),
           results := filter (\<lambda>r. \<not> (res_project_id r = p \<and> res_scenario_id r = s)) (results w)\<rparr>)"

text \<open>
  The first step of both handlers: load the operation into a new object. The POST
  handler lets an error pass when its message says that the operation does not exist,
  and throws any other again.
\<close>

definition post_load :: "inputs \<Rightarrow> world \<Rightarrow> int \<Rightarrow> int \<Rightarrow> error + operation" where
  "post_load inp w p s =
     (case loadByData inp w ''generate-analysis'' p s of
        Inl err \<Rightarrow> (if \<not> match_not_exist (message err) then Inl err else Inr new_Operation)
      | Inr ob \<Rightarrow> Inr ob)"

definition post_generate :: "inputs \<Rightarrow> int \<Rightarrow> int \<Rightarrow> world \<Rightarrow> reply \<times> world" where
  "post_generate inp p s w =
     (case post_load inp w p s of
        Inl err \<Rightarrow> (Boom err, w)
      | Inr opCheck \<Rightarrow>
          if isStarted opCheck
          then (Boom (DataConflictError ''Result generation already running''), w)
          else
            (case getProject w p of
               Inl err \<Rightarrow> (Boom err, w)
             | Inr pr \<Rightarrow>
                 if project_status pr \<noteq> ''active''
                 then (Boom (DataConflictError ''Project setup not completed''), w)
                 else
                   (case find (\<lambda>r. sc_id r = s \<and> sc_project_id r = p) (scenarios w) of
                      None \<Rightarrow> (Boom ScenarioNotFoundError, w)
                    | Some scenario \<Rightarrow>
                        (case settings w s ''admin_areas'' of
                           None \<Rightarrow> (Boom (TypeError ''value of undefined''), w)
                         | Some aa \<Rightarrow>
                             if aa = Str ''[]''
                             then (Boom (DataConflictError ''No admin areas selected''), w)
                             else
                               (let w1 = delete_results p s w
                                in (Ok ''Result generation started'',
                                    w1\<lparr>launched := launched w1 @ [(p, s)]\<rparr>))))))"

text \<open>
  The DELETE handler turns the does-not-exist error into a conflict and swallows any
  other error of the load, going on with the object as it is.
\<close>

definition delete_load :: "inputs \<Rightarrow> world \<Rightarrow> int \<Rightarrow> int \<Rightarrow> error + operation" where
  "delete_load inp w p s =
     (case loadByData inp w ''generate-analysis'' p s of
        Inl err \<Rightarrow>
          (if match_not_exist (message err)
           then Inl (DataConflictError ''Result generation not running'')
           else Inr new_Operation)
      | Inr ob \<Rightarrow> Inr ob)"

definition delete_generate :: "inputs \<Rightarrow> int \<Rightarrow> int \<Rightarrow> world \<Rightarrow> reply \<times> world" where
  "delete_generate inp p s w =
     (case delete_load inp w p s of
        Inl err \<Rightarrow> (Boom err, w)
      | Inr ob \<Rightarrow>
          if \<not> isStarted ob
          then (Boom (DataConflictError ''Result generation not running''), w)
          else
            (case killAnalysisProcess inp p s w of
               (Resolved _, w1) \<Rightarrow>
                  (Ok ''Result generation aborted'',
                   snd (finish Failed (ErrorText ''Operation aborted'') ob w1))
             | (Rejected err, w1) \<Rightarrow> (Boom err, w1)
             | (_, w1) \<Rightarrow> (NoReply, w1)))"

subsection \<open>Reading a command line and an event list\<close>

text \<open>
  The values that follow a \<^verbatim>\<open>-e\<close> flag in an argument list, the name in front of the
  first \<^verbatim>\<open>=\<close> of such a value, and the events that start a child process.
\<close>

fun e_values :: "string list \<Rightarrow> string list" where
  "e_values (a # v # rest) = (if a = ''-e'' then v # e_values rest else e_values (v # rest))"
| "e_values _ = []"

definition var_name :: "string \<Rightarrow> string" where
  "var_name v = takeWhile (\<lambda>c. c \<noteq> CHR ''='') v"

fun is_spawn :: "event \<Rightarrow> bool" where
  "is_spawn (Spawn _ _ _) = True"
| "is_spawn _ = False"

subsection \<open>A concrete installation\<close>

text \<open>
  One project with one scenario, whose road network was edited a month after the last
  generation; a stored road-network file and a results file; no operation yet.
\<close>

definition ex_cfg :: config where
  "ex_cfg = \<lparr>instanceId = ''ram'', service = ''docker'', container = ''ram-analysis:latest'',
     db_uri = ''postgresql://ram@db/ram'', storageHost = ''minio'', storagePort = ''9000'',
     hyperAccess = ''ha'', hyperSecret = ''hs'', hyperSize = None,
     storage_engine = ''minio'', storage_accessKey = ''ak'', storage_secretKey = ''sk'',
     storage_bucket = ''ram'', storage_region = ''us-east-1''\<rparr>"

definition ex_inputs :: inputs where
  "ex_inputs = \<lparr>DS_ENV = ''production'', cfg = ex_cfg,
     date_parse = (\<lambda>t. if t = ''2018-01-01T00:00:00.000Z'' then Some 1514764800000
                       else if t = ''2018-02-01T00:00:00.000Z'' then Some 1517443200000
                       else None),
     load_fault = None, closeDatabase_fails = None, updateRN_complete = None,
     genVT_fails = None,
     pull_child = \<lparr>exit_with = Exit 0, stderr_chunks = []\<rparr>,
     run_child = \<lparr>exit_with = Exit 0, stderr_chunks = []\<rparr>\<rparr>"

definition ex_settings :: "int \<Rightarrow> string \<Rightarrow> jsval option" where
  "ex_settings sc =
     (if sc = 1
      then Map.empty(''admin_areas'' \<mapsto> Str ''[10, 20]'',
             ''res_gen_at'' \<mapsto> Str ''2018-01-01T00:00:00.000Z'',
             ''rn_active_editing'' \<mapsto> Str ''true'',
             ''rn_updated_at'' \<mapsto> Str ''2018-02-01T00:00:00.000Z'')
      else Map.empty)"

definition ex_world :: world where
  "ex_world = \<lparr>operations = [],
     projects = Map.empty(1 \<mapsto> \<lparr>project_status = ''active''\<rparr>),
     scenarios = [\<lparr>sc_id = 1, sc_project_id = 1\<rparr>],
     settings = ex_settings,
     scenarios_files =
       [\<lparr>file_id = 1, file_project_id = 1, file_scenario_id = 1,
         file_type = ''road-network'', file_path = ''scenario-1/rn.osm''\<rparr>,
        \<lparr>file_id = 2, file_project_id = 1, file_scenario_id = 1,
         file_type = ''results-csv'', file_path = ''scenario-1/results.csv''\<rparr>],
     results = [\<lparr>res_project_id = 1, res_scenario_id = 1\<rparr>],
     bucket_objects = {''scenario-1/rn.osm'', ''scenario-1/results.csv''},
     runningProcesses = Map.empty,
     events = [],
     launched = []\<rparr>"

text \<open>The record of a generation that is under way, and the store that holds it.\<close>

definition ex_running :: op_record where
  "ex_running = \<lparr>op_id = 7, op_name = ''generate-analysis'', op_projId = 1, op_scId = 1,
     op_status = Running, op_log = [Logged ''start'' (Message ''Analysis generation started'')]\<rparr>"

definition ex_world_running :: world where
  "ex_world_running = ex_world\<lparr>operations := [ex_running]\<rparr>"

text \<open>Editing is enabled and both timestamps are still the number 0.\<close>

definition ex_world_unset :: world where
  "ex_world_unset =
     ex_world\<lparr>settings := (\<lambda>sc. Map.empty(''admin_areas'' \<mapsto> Str ''[10, 20]'',
                               ''res_gen_at'' \<mapsto> Num 0,
                               ''rn_active_editing'' \<mapsto> Str ''true'',
                               ''rn_updated_at'' \<mapsto> Num 0))\<rparr>"

text \<open>The scenario has no \<^verbatim>\<open>admin_areas\<close> row.\<close>

definition ex_world_no_areas :: world where
  "ex_world_no_areas = ex_world\<lparr>settings := (\<lambda>sc. Map.empty)\<rparr>"

text \<open>
  The running generation with the export service in its slot and, against the order of
  the stages, a tile service in the other slot as well.
\<close>

definition ex_entry_exporting :: entry where
  "ex_entry_exporting =
     \<lparr>updateRN_slot = Some (ServiceRunner ''export-road-network'' 1 1 (Some 7)),
      genVT_slot = Some (RoadNetworkVT 1 1 (Some 7) ''scenario-1/rn.osm'')\<rparr>"

definition ex_world_exporting :: world where
  "ex_world_exporting =
     ex_world_running\<lparr>runningProcesses := Map.empty(identifier_of 1 1 \<mapsto> ex_entry_exporting)\<rparr>"

text \<open>The same installation run by the test suite, and with other settings of the service.\<close>

definition ex_inputs_test :: inputs where
  "ex_inputs_test = ex_inputs\<lparr>DS_ENV := ''test''\<rparr>"

definition ex_inputs_hyper :: inputs where
  "ex_inputs_hyper = ex_inputs\<lparr>cfg := ex_cfg\<lparr>service := ''hyper'', hyperSize := Some ''m2''\<rparr>\<rparr>"

definition ex_inputs_podman :: inputs where
  "ex_inputs_podman = ex_inputs\<lparr>cfg := ex_cfg\<lparr>service := ''podman''\<rparr>\<rparr>"

text \<open>The analysis container fails, after two chunks on its stderr.\<close>

definition ex_inputs_failing :: inputs where
  "ex_inputs_failing =
     ex_inputs\<lparr>run_child := \<lparr>exit_with = Exit 1,
                              stderr_chunks = [''Loading road network'', ''Error: out of memory'']\<rparr>\<rparr>"

section \<open>Properties\<close>

subsection \<open>Admission and abort\<close>

lemma match_does_not_exist: "match_not_exist ''Operation does not exist''"
  by (simp add: match_not_exist_def)

lemma new_Operation_not_started: "\<not> isStarted new_Operation"
  by (simp add: isStarted_def new_Operation_def)

text \<open>
  C1. When the load succeeds and the most recent operation \<^verbatim>\<open>generate-analysis\<close> of
  \<open>(projId, scId)\<close> is running, the POST handler answers with the conflict error
  ``Result generation already running'' and leaves everything as it was: no object is
  removed from storage, no file or result row is deleted, no call of
  \<^verbatim>\<open>generateResults\<close> is made.
\<close>

theorem post_generate_already_running:
  assumes "load_fault inp = None"
    and "find (same_identity ''generate-analysis'' p s) (operations w) = Some r"
    and "op_status r = Running"
  shows "post_generate inp p s w =
           (Boom (DataConflictError ''Result generation already running''), w)"
  using assms by (simp add: post_generate_def post_load_def loadByData_def isStarted_def)

text \<open>The theorem at the store that holds the running record.\<close>

theorem post_generate_already_running_witness:
  "load_fault ex_inputs = None
   \<and> find (same_identity ''generate-analysis'' 1 1) (operations ex_world_running) = Some ex_running
   \<and> op_status ex_running = Running
   \<and> post_generate ex_inputs 1 1 ex_world_running =
       (Boom (DataConflictError ''Result generation already running''), ex_world_running)"
proof -
  have a: "load_fault ex_inputs = None"
    by (simp add: ex_inputs_def)
  have b: "find (same_identity ''generate-analysis'' 1 1) (operations ex_world_running) = Some ex_running"
    by (simp add: ex_world_running_def same_identity_def ex_running_def)
  have c: "op_status ex_running = Running"
    by (simp add: ex_running_def)
  from post_generate_already_running [OF a b c] a b c show ?thesis by simp
qed

text \<open>
  C5. When no operation \<^verbatim>\<open>generate-analysis\<close> of \<open>(projId, scId)\<close> is running (there is
  no record at all, or no record of the identity is running, or the load fails for a
  reason of its own), the DELETE handler answers with the conflict error ``Result
  generation not running'' and leaves everything as it was: nothing is killed, no
  container removal is issued, the registry and the operation records are untouched.
\<close>

theorem delete_generate_not_running:
  assumes "load_fault inp = None \<longrightarrow>
             (\<forall>r\<in>set (operations w).
                same_identity ''generate-analysis'' p s r \<longrightarrow> op_status r \<noteq> Running)"
  shows "delete_generate inp p s w =
           (Boom (DataConflictError ''Result generation not running''), w)"
proof (cases "load_fault inp")
  case (Some e)
  then show ?thesis
    by (simp add: delete_generate_def delete_load_def loadByData_def new_Operation_not_started)
next
  case None
  show ?thesis
  proof (cases "find (same_identity ''generate-analysis'' p s) (operations w)")
    case no_record: None
    with None show ?thesis
      by (simp add: delete_generate_def delete_load_def loadByData_def match_does_not_exist)
  next
    case (Some r)
    then have "r \<in> set (operations w)" and "same_identity ''generate-analysis'' p s r"
      by (auto simp: find_Some_iff in_set_conv_nth)
    with assms None have "op_status r \<noteq> Running" by blast
    with None Some show ?thesis
      by (simp add: delete_generate_def delete_load_def loadByData_def isStarted_def)
  qed
qed

text \<open>The theorem at the store without any operation record.\<close>

theorem delete_generate_not_running_witness:
  "operations ex_world = []
   \<and> delete_generate ex_inputs 1 1 ex_world =
       (Boom (DataConflictError ''Result generation not running''), ex_world)"
  using delete_generate_not_running [of ex_inputs ex_world 1 1]
  by (simp add: ex_world_def)

text \<open>
  C9. When the admission check has passed, the project is active and the scenario
  exists, but the scenario has no \<^verbatim>\<open>admin_areas\<close> row, the POST handler answers with
  the \<^verbatim>\<open>TypeError\<close> of reading \<^verbatim>\<open>value\<close> from \<^verbatim>\<open>undefined\<close>, not with the conflict error
  ``No admin areas selected''; nothing was changed before.
\<close>

theorem post_generate_missing_admin_areas:
  assumes "post_load inp w p s = Inr ob" and "\<not> isStarted ob"
    and "projects w p = Some pr" and "project_status pr = ''active''"
    and "find (\<lambda>r. sc_id r = s \<and> sc_project_id r = p) (scenarios w) = Some sc"
    and "settings w s ''admin_areas'' = None"
  shows "post_generate inp p s w = (Boom (TypeError ''value of undefined''), w)
         \<and> fst (post_generate inp p s w) \<noteq> Boom (DataConflictError ''No admin areas selected'')"
  using assms by (simp add: post_generate_def getProject_def)

text \<open>The theorem at the store whose scenario has no settings row.\<close>

theorem post_generate_missing_admin_areas_witness:
  "post_load ex_inputs ex_world_no_areas 1 1 = Inr new_Operation
   \<and> settings ex_world_no_areas 1 ''admin_areas'' = None
   \<and> post_generate ex_inputs 1 1 ex_world_no_areas =
       (Boom (TypeError ''value of undefined''), ex_world_no_areas)"
proof -
  have a: "post_load ex_inputs ex_world_no_areas 1 1 = Inr new_Operation"
    by (simp add: post_load_def loadByData_def ex_inputs_def ex_world_no_areas_def ex_world_def
        match_does_not_exist)
  have b: "projects ex_world_no_areas 1 = Some \<lparr>project_status = ''active''\<rparr>"
    by (simp add: ex_world_no_areas_def ex_world_def)
  have c: "find (\<lambda>r. sc_id r = 1 \<and> sc_project_id r = 1) (scenarios ex_world_no_areas)
             = Some \<lparr>sc_id = 1, sc_project_id = 1\<rparr>"
    by (simp add: ex_world_no_areas_def ex_world_def)
  have d: "settings ex_world_no_areas 1 ''admin_areas'' = None"
    by (simp add: ex_world_no_areas_def)
  from post_generate_missing_admin_areas [OF a new_Operation_not_started b _ c d] a d
  show ?thesis by simp
qed

text \<open>For comparison: a row whose value is the empty list gives the conflict error.\<close>

lemma post_generate_empty_admin_areas:
  assumes "post_load inp w p s = Inr ob" and "\<not> isStarted ob"
    and "projects w p = Some pr" and "project_status pr = ''active''"
    and "find (\<lambda>r. sc_id r = s \<and> sc_project_id r = p) (scenarios w) = Some sc"
    and "settings w s ''admin_areas'' = Some (Str ''[]'')"
  shows "post_generate inp p s w = (Boom (DataConflictError ''No admin areas selected''), w)"
  using assms by (simp add: post_generate_def getProject_def)

subsection \<open>The decision to export\<close>

text \<open>
  The test \<^verbatim>\<open>=== 0\<close> changes nothing for a number: 0 is compared as 0 milliseconds, which
  is what a date at the start of the epoch gives too.
\<close>

lemma stamp_is_getTime: "stamp inp v = getTime inp v"
  by (simp add: stamp_def getTime_def)

lemma export_settings_all:
  assumes "settings w s ''res_gen_at'' = Some g"
    and "settings w s ''rn_active_editing'' = Some a"
    and "settings w s ''rn_updated_at'' = Some u"
  shows "export_settings w s = [g, a, u]"
  using assms by (simp add: export_settings_def List.map_filter_def)

text \<open>
  C2, as the code has it. With the three settings rows present, \<^verbatim>\<open>needExport\<close> is true
  exactly when \<^verbatim>\<open>rn_active_editing\<close> is the string \<^verbatim>\<open>true\<close> and the time of
  \<^verbatim>\<open>rn_updated_at\<close> is strictly greater than the time of \<^verbatim>\<open>res_gen_at\<close>, a literal 0
  counting as the time 0. With editing enabled and \<^verbatim>\<open>res_gen_at\<close> 0, \<^verbatim>\<open>needExport\<close> is true
  exactly when \<^verbatim>\<open>rn_updated_at\<close> is a time strictly after 0.
\<close>

theorem needExport_decision:
  assumes "settings w s ''res_gen_at'' = Some g"
    and "settings w s ''rn_active_editing'' = Some a"
    and "settings w s ''rn_updated_at'' = Some u"
  shows "(needExport inp w s \<longleftrightarrow> a = Str ''true'' \<and> js_greater (stamp inp u) (stamp inp g))
       \<and> stamp inp (Num 0) = Some 0
       \<and> (a = Str ''true'' \<and> g = Num 0 \<longrightarrow>
            (needExport inp w s \<longleftrightarrow> (case stamp inp u of None \<Rightarrow> False | Some t \<Rightarrow> 0 < t)))"
  using export_settings_all [OF assms]
  by (auto simp: needExport_def at_index_def js_greater_def stamp_def split: option.splits)

text \<open>The theorem at the scenario edited after its last generation.\<close>

theorem needExport_decision_witness:
  "settings ex_world 1 ''res_gen_at'' = Some (Str ''2018-01-01T00:00:00.000Z'')
   \<and> settings ex_world 1 ''rn_active_editing'' = Some (Str ''true'')
   \<and> settings ex_world 1 ''rn_updated_at'' = Some (Str ''2018-02-01T00:00:00.000Z'')
   \<and> needExport ex_inputs ex_world 1"
proof -
  have g: "settings ex_world 1 ''res_gen_at'' = Some (Str ''2018-01-01T00:00:00.000Z'')"
    by (simp add: ex_world_def ex_settings_def)
  have a: "settings ex_world 1 ''rn_active_editing'' = Some (Str ''true'')"
    by (simp add: ex_world_def ex_settings_def)
  have u: "settings ex_world 1 ''rn_updated_at'' = Some (Str ''2018-02-01T00:00:00.000Z'')"
    by (simp add: ex_world_def ex_settings_def)
  have "js_greater (stamp ex_inputs (Str ''2018-02-01T00:00:00.000Z''))
          (stamp ex_inputs (Str ''2018-01-01T00:00:00.000Z''))"
    by (simp add: js_greater_def stamp_def getTime_def ex_inputs_def)
  with needExport_decision [OF g a u, of ex_inputs] g a u show ?thesis by simp
qed

text \<open>
  C2 as stated fails: with editing enabled and \<^verbatim>\<open>res_gen_at\<close> unset (0), \<^verbatim>\<open>needExport\<close> is
  not true for every \<^verbatim>\<open>rn_updated_at\<close>; it is false when \<^verbatim>\<open>rn_updated_at\<close> is 0 as well.
\<close>

theorem needExport_unset_counterexample:
  "settings ex_world_unset 1 ''rn_active_editing'' = Some (Str ''true'')
   \<and> settings ex_world_unset 1 ''res_gen_at'' = Some (Num 0)
   \<and> settings ex_world_unset 1 ''rn_updated_at'' = Some (Num 0)
   \<and> \<not> needExport ex_inputs ex_world_unset 1"
  by (simp add: ex_world_unset_def needExport_def export_settings_def List.map_filter_def
      at_index_def js_greater_def stamp_def)

subsection \<open>Cancellation\<close>

text \<open>
  Under \<^verbatim>\<open>DS_ENV = test\<close> the orchestrator and the kill return at once, and no function of
  the module writes the registry: it stays as empty as it was when the module was loaded.
\<close>

lemma generateResults_test_mode: "DS_ENV inp = ''test'' \<Longrightarrow> generateResults inp p s w = (Resolved (), w)"
  by (simp add: generateResults_def)

lemma killAnalysisProcess_test_mode: "DS_ENV inp = ''test'' \<Longrightarrow> killAnalysisProcess inp p s w = (Resolved (), w)"
  by (simp add: killAnalysisProcess_def)

lemma registry_finish: "runningProcesses (snd (finish st d ob w)) = runningProcesses w"
  by (simp add: finish_def update_record_def)

lemma registry_post_generate: "runningProcesses (snd (post_generate inp p s w)) = runningProcesses w"
  by (simp add: post_generate_def delete_results_def Let_def split: sum.splits option.splits)

lemma registry_delete_generate_test_mode:
  "DS_ENV inp = ''test'' \<Longrightarrow> runningProcesses (snd (delete_generate inp p s w)) = runningProcesses w"
  by (simp add: delete_generate_def killAnalysisProcess_test_mode registry_finish split: sum.splits)

lemma registry_empty_in_test_mode:
  assumes "DS_ENV inp = ''test'' \<longrightarrow> runningProcesses w = Map.empty"
  shows "DS_ENV inp = ''test'' \<longrightarrow> runningProcesses (snd (generateResults inp p s w)) = Map.empty"
    and "DS_ENV inp = ''test'' \<longrightarrow> runningProcesses (snd (killAnalysisProcess inp p s w)) = Map.empty"
    and "DS_ENV inp = ''test'' \<longrightarrow> runningProcesses (snd (post_generate inp p s w)) = Map.empty"
    and "DS_ENV inp = ''test'' \<longrightarrow> runningProcesses (snd (delete_generate inp p s w)) = Map.empty"
  using assms
  by (simp_all add: generateResults_test_mode killAnalysisProcess_test_mode registry_post_generate
      registry_delete_generate_test_mode)

text \<open>
  C6. When the registry entry of the job key holds an export handle in its \<^verbatim>\<open>updateRN\<close>
  slot, \<^verbatim>\<open>killAnalysisProcess\<close> kills that handle, clears that slot and resolves; the only
  event is this kill (no kill of the tile handle, no container removal), and the
  \<^verbatim>\<open>genVT\<close> slot and all other entries are as before. The first hypothesis says that the
  registry is empty under \<^verbatim>\<open>DS_ENV = test\<close>, which the lemmas above maintain.
\<close>

theorem killAnalysisProcess_updateRN_active:
  assumes "DS_ENV inp = ''test'' \<longrightarrow> runningProcesses w = Map.empty"
    and "runningProcesses w (identifier_of p s) = Some e"
    and "updateRN_slot e = Some h"
  shows "killAnalysisProcess inp p s w =
           (Resolved (),
            w\<lparr>events := events w @ [Kill h],
              runningProcesses := (runningProcesses w)(identifier_of p s \<mapsto> e\<lparr>updateRN_slot := None\<rparr>)\<rparr>)"
proof -
  from assms(1,2) have "DS_ENV inp \<noteq> ''test''" by auto
  with assms(2,3) show ?thesis
    by (simp add: killAnalysisProcess_def set_entry_def emit_def)
qed

text \<open>The theorem at the entry that holds both handles.\<close>

theorem killAnalysisProcess_updateRN_active_witness:
  "runningProcesses ex_world_exporting (identifier_of 1 1) = Some ex_entry_exporting
   \<and> updateRN_slot ex_entry_exporting = Some (ServiceRunner ''export-road-network'' 1 1 (Some 7))
   \<and> events (snd (killAnalysisProcess ex_inputs 1 1 ex_world_exporting))
       = [Kill (ServiceRunner ''export-road-network'' 1 1 (Some 7))]
   \<and> runningProcesses (snd (killAnalysisProcess ex_inputs 1 1 ex_world_exporting)) (identifier_of 1 1)
       = Some \<lparr>updateRN_slot = None, genVT_slot = Some (RoadNetworkVT 1 1 (Some 7) ''scenario-1/rn.osm'')\<rparr>"
proof -
  have a: "DS_ENV ex_inputs = ''test'' \<longrightarrow> runningProcesses ex_world_exporting = Map.empty"
    by (simp add: ex_inputs_def)
  have b: "runningProcesses ex_world_exporting (identifier_of 1 1) = Some ex_entry_exporting"
    by (simp add: ex_world_exporting_def)
  have c: "updateRN_slot ex_entry_exporting = Some (ServiceRunner ''export-road-network'' 1 1 (Some 7))"
    by (simp add: ex_entry_exporting_def)
  have d: "events ex_world_exporting = []"
    by (simp add: ex_world_exporting_def ex_world_running_def ex_world_def)
  from killAnalysisProcess_updateRN_active [OF a b c] b c d show ?thesis
    by (simp add: ex_entry_exporting_def)
qed

text \<open>
  C10, as the code has it. Outside the test mode, \<^verbatim>\<open>killAnalysisProcess\<close> for a job key
  without registry entry rejects with the \<^verbatim>\<open>TypeError\<close> of reading \<^verbatim>\<open>updateRN\<close> from
  \<^verbatim>\<open>undefined\<close> and does nothing else (no container removal is issued); the abort
  request of a running operation then answers with that error and the operation is
  not finished.
\<close>

theorem killAnalysisProcess_no_entry:
  assumes "DS_ENV inp \<noteq> ''test''"
    and "runningProcesses w (identifier_of p s) = None"
  shows "killAnalysisProcess inp p s w = (Rejected (TypeError ''updateRN of undefined''), w)
       \<and> (load_fault inp = None
            \<and> find (same_identity ''generate-analysis'' p s) (operations w) = Some r
            \<and> op_status r = Running
          \<longrightarrow> delete_generate inp p s w = (Boom (TypeError ''updateRN of undefined''), w))"
  using assms
  by (simp add: killAnalysisProcess_def delete_generate_def delete_load_def loadByData_def isStarted_def)

text \<open>The theorem at the running operation whose job key has no entry.\<close>

theorem killAnalysisProcess_no_entry_witness:
  "runningProcesses ex_world_running (identifier_of 1 1) = None
   \<and> killAnalysisProcess ex_inputs 1 1 ex_world_running = (Rejected (TypeError ''updateRN of undefined''), ex_world_running)
   \<and> delete_generate ex_inputs 1 1 ex_world_running = (Boom (TypeError ''updateRN of undefined''), ex_world_running)"
proof -
  have a: "DS_ENV ex_inputs \<noteq> ''test''" by (simp add: ex_inputs_def)
  have b: "runningProcesses ex_world_running (identifier_of 1 1) = None"
    by (simp add: ex_world_running_def ex_world_def)
  have c: "load_fault ex_inputs = None" by (simp add: ex_inputs_def)
  have d: "find (same_identity ''generate-analysis'' 1 1) (operations ex_world_running) = Some ex_running"
    by (simp add: ex_world_running_def same_identity_def ex_running_def)
  have e: "op_status ex_running = Running" by (simp add: ex_running_def)
  from killAnalysisProcess_no_entry [OF a b, of ex_running] b c d e show ?thesis by simp
qed

text \<open>
  C10 as stated fails under \<^verbatim>\<open>DS_ENV = test\<close>: the job key has no entry, the kill
  resolves and the abort request completes.
\<close>

theorem killAnalysisProcess_no_entry_counterexample:
  "runningProcesses ex_world_running (identifier_of 1 1) = None
   \<and> killAnalysisProcess ex_inputs_test 1 1 ex_world_running = (Resolved (), ex_world_running)
   \<and> fst (delete_generate ex_inputs_test 1 1 ex_world_running) = Ok ''Result generation aborted''"
  by (simp add: killAnalysisProcess_def delete_generate_def delete_load_def loadByData_def isStarted_def
      ex_inputs_test_def ex_inputs_def ex_world_running_def ex_world_def ex_running_def same_identity_def)

subsection \<open>The analysis container\<close>

lemma containerName_not_flag: "containerName c p s \<noteq> ''-e''"
proof
  assume "containerName c p s = ''-e''"
  then have "length (containerName c p s) = 2" by simp
  then show False by (simp add: containerName_def)
qed

text \<open>
  C8. With \<^verbatim>\<open>docker\<close> or \<^verbatim>\<open>hyper\<close> configured, \<^verbatim>\<open>runProcess\<close> spawns the service once, with
  \<^verbatim>\<open>run\<close>, the name \<^verbatim>\<open>{instanceId}-analysisp{projId}s{scId}\<close>, \<^verbatim>\<open>--rm\<close>, the twelve
  \<^verbatim>\<open>-e\<close> assignments in the documented order (the last one \<^verbatim>\<open>CONVERSION_DIR=/conversion\<close>),
  then \<^verbatim>\<open>--network ram\<close> for \<^verbatim>\<open>docker\<close>, or \<^verbatim>\<open>--size=...\<close> for \<^verbatim>\<open>hyper\<close> when a size is
  configured, and the image last; \<^verbatim>\<open>hyper\<close> gets the two credentials in its environment,
  \<^verbatim>\<open>docker\<close> nothing. The names passed with \<^verbatim>\<open>-e\<close> are exactly the twelve, whatever the
  configured values are.
\<close>

theorem runProcess_spawn_contract:
  assumes "service (cfg inp) = ''docker'' \<or> service (cfg inp) = ''hyper''"
  shows "\<exists>args env.
           events (snd (runProcess inp p s opId w)) = events w @ [Spawn (service (cfg inp)) args env]
         \<and> args = [''run'', ''--name'',
                   instanceId (cfg inp) @ ''-analysisp'' @ show_int p @ ''s'' @ show_int s, ''--rm'',
                   ''-e'', ''DB_URI='' @ db_uri (cfg inp),
                   ''-e'', ''PROJECT_ID='' @ show_int p,
                   ''-e'', ''SCENARIO_ID='' @ show_int s,
                   ''-e'', ''OPERATION_ID='' @ show_id opId,
                   ''-e'', ''STORAGE_HOST='' @ storageHost (cfg inp),
                   ''-e'', ''STORAGE_PORT='' @ storagePort (cfg inp),
                   ''-e'', ''STORAGE_ENGINE='' @ storage_engine (cfg inp),
                   ''-e'', ''STORAGE_ACCESS_KEY='' @ storage_accessKey (cfg inp),
                   ''-e'', ''STORAGE_SECRET_KEY='' @ storage_secretKey (cfg inp),
                   ''-e'', ''STORAGE_BUCKET='' @ storage_bucket (cfg inp),
                   ''-e'', ''STORAGE_REGION='' @ storage_region (cfg inp),
                   ''-e'', ''CONVERSION_DIR=/conversion'']
                  @ (if service (cfg inp) = ''docker'' then [''--network'', ''ram'']
                     else (case hyperSize (cfg inp) of
                             None \<Rightarrow> []
                           | Some z \<Rightarrow> if z = [] then [] else [''--size='' @ z]))
                  @ [container (cfg inp)]
         \<and> env = (if service (cfg inp) = ''docker'' then []
                  else [(''HYPER_ACCESS'', hyperAccess (cfg inp)), (''HYPER_SECRET'', hyperSecret (cfg inp))])
         \<and> map var_name (e_values args) =
             [''DB_URI'', ''PROJECT_ID'', ''SCENARIO_ID'', ''OPERATION_ID'', ''STORAGE_HOST'',
              ''STORAGE_PORT'', ''STORAGE_ENGINE'', ''STORAGE_ACCESS_KEY'', ''STORAGE_SECRET_KEY'',
              ''STORAGE_BUCKET'', ''STORAGE_REGION'', ''CONVERSION_DIR'']"
  using assms containerName_not_flag [of "cfg inp" p s]
  by (auto simp: runProcess_def spawn_run_def run_args_def emit_def delete_entry_def hyper_env_def
      containerName_def var_name_def truthy_def Let_def split: exit_code.splits option.splits)

lemma show_int_1: "show_int 1 = ''1''"
  by (simp add: show_int_def show_nat.simps digit_def)

lemma show_nat_1: "show_nat (Suc 0) = ''1''" "show_nat 7 = ''7''"
  by (simp_all add: show_nat.simps digit_def)

text \<open>The theorem at the remote backend with a size configured.\<close>

theorem runProcess_spawn_contract_witness:
  "service (cfg ex_inputs_hyper) = ''hyper''
   \<and> events (snd (runProcess ex_inputs_hyper 1 1 (Some 7) ex_world)) =
       [Spawn ''hyper''
         [''run'', ''--name'', ''ram-analysisp1s1'', ''--rm'',
          ''-e'', ''DB_URI=postgresql://ram@db/ram'', ''-e'', ''PROJECT_ID=1'',
          ''-e'', ''SCENARIO_ID=1'', ''-e'', ''OPERATION_ID=7'', ''-e'', ''STORAGE_HOST=minio'',
          ''-e'', ''STORAGE_PORT=9000'', ''-e'', ''STORAGE_ENGINE=minio'',
          ''-e'', ''STORAGE_ACCESS_KEY=ak'', ''-e'', ''STORAGE_SECRET_KEY=sk'',
          ''-e'', ''STORAGE_BUCKET=ram'', ''-e'', ''STORAGE_REGION=us-east-1'',
          ''-e'', ''CONVERSION_DIR=/conversion'', ''--size=m2'', ''ram-analysis:latest'']
         [(''HYPER_ACCESS'', ''ha''), (''HYPER_SECRET'', ''hs'')]]"
proof -
  have h: "service (cfg ex_inputs_hyper) = ''hyper''"
    by (simp add: ex_inputs_hyper_def)
  from runProcess_spawn_contract [OF disjI2 [OF h], of 1 1 "Some 7" ex_world] h show ?thesis
    by (auto simp: ex_inputs_hyper_def ex_cfg_def ex_world_def show_int_1 show_nat_1 show_id_def)
qed

text \<open>
  C3, as the code has it. With a service name other than \<^verbatim>\<open>docker\<close> and \<^verbatim>\<open>hyper\<close>,
  \<^verbatim>\<open>spawnAnalysisProcess\<close> calls \<^verbatim>\<open>cp.spawn\<close> exactly once: for the image pull, with the
  configured name as the command. The container run is not attempted.
\<close>

theorem spawnAnalysisProcess_unsupported_service:
  assumes "service (cfg inp) \<noteq> ''docker''" and "service (cfg inp) \<noteq> ''hyper''"
  shows "filter is_spawn (events (snd (spawnAnalysisProcess inp p s opId w))) =
           filter is_spawn (events w) @
             [Spawn (service (cfg inp)) [''pull'', container (cfg inp)]
                [(''HYPER_ACCESS'', hyperAccess (cfg inp)), (''HYPER_SECRET'', hyperSecret (cfg inp))]]"
  using assms
  by (simp add: spawnAnalysisProcess_def await_def pullImage_def runProcess_def emit_def
      hyper_env_def Let_def)

text \<open>The theorem at the service name \<^verbatim>\<open>podman\<close>.\<close>

theorem spawnAnalysisProcess_unsupported_service_witness:
  "service (cfg ex_inputs_podman) = ''podman''
   \<and> filter is_spawn (events (snd (spawnAnalysisProcess ex_inputs_podman 1 1 (Some 1) ex_world))) =
       [Spawn ''podman'' [''pull'', ''ram-analysis:latest'']
          [(''HYPER_ACCESS'', ''ha''), (''HYPER_SECRET'', ''hs'')]]"
proof -
  have a: "service (cfg ex_inputs_podman) \<noteq> ''docker''" and b: "service (cfg ex_inputs_podman) \<noteq> ''hyper''"
    by (simp_all add: ex_inputs_podman_def)
  from spawnAnalysisProcess_unsupported_service [OF a b, of 1 1 "Some 1" ex_world] show ?thesis
    by (simp add: ex_inputs_podman_def ex_cfg_def ex_world_def)
qed

text \<open>
  C3 as stated fails at the service name \<^verbatim>\<open>podman\<close>: the pull is spawned before the name
  is looked at; then \<^verbatim>\<open>runProcess\<close> creates the rejection but does not reject its own
  promise, so that \<^verbatim>\<open>spawnAnalysisProcess\<close> never settles, \<^verbatim>\<open>generateResults\<close> never enters
  its \<^verbatim>\<open>catch\<close> block, and the operation stays running.
\<close>

theorem spawnAnalysisProcess_unsupported_service_counterexample:
  "service (cfg ex_inputs_podman) \<noteq> ''docker'' \<and> service (cfg ex_inputs_podman) \<noteq> ''hyper''
   \<and> spawnAnalysisProcess ex_inputs_podman 1 1 (Some 1) ex_world =
       (Pending,
        ex_world\<lparr>events := [Spawn ''podman'' [''pull'', ''ram-analysis:latest'']
                               [(''HYPER_ACCESS'', ''ha''), (''HYPER_SECRET'', ''hs'')],
                            UnhandledRejection (invalid_service ''podman'')]\<rparr>)
   \<and> fst (generateResults ex_inputs_podman 1 1 ex_world_unset) = Pending
   \<and> map op_status (operations (snd (generateResults ex_inputs_podman 1 1 ex_world_unset))) = [Running]"
  by (simp add: spawnAnalysisProcess_def await_def pullImage_def runProcess_def emit_def
      hyper_env_def Let_def ex_inputs_podman_def ex_inputs_def ex_cfg_def ex_world_def
      generateResults_def start_def log_def update_record_def ensure_entry_def set_entry_def
      catch_error_def stages_def getId_def ex_world_unset_def needExport_def export_settings_def
      List.map_filter_def at_index_def js_greater_def stamp_def new_id_def)

subsection \<open>The orchestrator\<close>

text \<open>A new operation id is not the id of any stored record.\<close>

lemma fold_max_ge: "a \<le> fold max xs (a::nat)"
  by (induction xs arbitrary: a) (auto intro: order_trans [OF max.cobounded2])

lemma fold_max_member: "x \<in> set xs \<Longrightarrow> x \<le> fold max xs (a::nat)"
  by (induction xs arbitrary: a) (auto intro: order_trans [OF max.cobounded1 fold_max_ge])

lemma new_id_fresh: "r \<in> set rs \<Longrightarrow> op_id r \<noteq> new_id rs"
  using fold_max_member [of "op_id r" "map op_id rs" 0] by (auto simp: new_id_def)

lemma update_fresh: "map (\<lambda>r. if op_id r = new_id rs then f r else r) rs = rs"
  by (rule map_idI) (simp add: new_id_fresh)

lemma needExport_settings: "settings w' = settings w \<Longrightarrow> needExport inp w' s = needExport inp w s"
  by (simp add: needExport_def export_settings_def)

text \<open>
  The analysis stage always spawns the pull, and then the container when the service
  is one of the two.
\<close>

lemma spawnAnalysisProcess_events:
  "\<exists>rest. events (snd (spawnAnalysisProcess inp p s i w)) =
            events w @ Spawn (service (cfg inp)) [''pull'', container (cfg inp)] (hyper_env (cfg inp)) # rest
        \<and> (service (cfg inp) = ''docker'' \<or> service (cfg inp) = ''hyper''
             \<longrightarrow> (\<exists>args env. rest = [Spawn (service (cfg inp)) (''run'' # args) env]))"
  by (auto simp: spawnAnalysisProcess_def await_def pullImage_def runProcess_def spawn_run_def
      run_args_def emit_def delete_entry_def Let_def split: exit_code.splits)

lemma handle_error_events: "events (snd (handle_error e ob w)) = events w"
  by (simp add: handle_error_def finish_def update_record_def)

lemma catch_error_events: "events (snd (catch_error ob r)) = events (snd r)"
  by (simp add: catch_error_def handle_error_events split: promise.splits)

text \<open>
  Outside the test mode and with no running operation of the identity, the operation
  is started and logged, the registry entry exists, and the stages run on that state.
\<close>

lemma generateResults_started:
  assumes "DS_ENV inp \<noteq> ''test''"
    and "\<not> list_ex (\<lambda>r. same_identity ''generate-analysis'' p s r \<and> op_status r = Running) (operations w)"
  shows "\<exists>w3 e. generateResults inp p s w =
            catch_error \<lparr>obj_id = Some (new_id (operations w)), obj_status = Running\<rparr>
              (stages inp p s \<lparr>obj_id = Some (new_id (operations w)), obj_status = Running\<rparr> (needExport inp w s) w3)
          \<and> events w3 = events w \<and> scenarios_files w3 = scenarios_files w
          \<and> runningProcesses w3 (identifier_of p s) = Some e
          \<and> operations w3 =
              \<lparr>op_id = new_id (operations w), op_name = ''generate-analysis'', op_projId = p,
               op_scId = s, op_status = Running,
               op_log = [Logged ''start'' (Message ''Analysis generation started'')]\<rparr> # operations w"
proof -
  let ?ob = "\<lparr>obj_id = Some (new_id (operations w)), obj_status = Running\<rparr>"
  let ?r = "\<lparr>op_id = new_id (operations w), op_name = ''generate-analysis'', op_projId = p, op_scId = s,
                  op_status = Running, op_log = []\<rparr>"
  let ?w3 = "ensure_entry (identifier_of p s)
               (log ''start'' (Message ''Analysis generation started'') ?ob (w\<lparr>operations := ?r # operations w\<rparr>))"
  have s: "start ''generate-analysis'' p s w = Inr (?ob, w\<lparr>operations := ?r # operations w\<rparr>)"
    using assms(2) by (simp add: start_def Let_def)
  have n: "needExport inp ?w3 s = needExport inp w s"
    by (rule needExport_settings)
      (simp add: ensure_entry_def set_entry_def log_def update_record_def split: option.splits)
  have g: "generateResults inp p s w = catch_error ?ob (stages inp p s ?ob (needExport inp w s) ?w3)"
    using assms(1) by (simp add: generateResults_def s n Let_def)
  have e: "events ?w3 = events w" "scenarios_files ?w3 = scenarios_files w"
    by (simp_all add: ensure_entry_def set_entry_def log_def update_record_def split: option.splits)
  have "\<exists>e. runningProcesses ?w3 (identifier_of p s) = Some e"
    by (simp add: ensure_entry_def set_entry_def log_def update_record_def split: option.splits)
  moreover have "operations ?w3 =
              \<lparr>op_id = new_id (operations w), op_name = ''generate-analysis'', op_projId = p,
               op_scId = s, op_status = Running,
               op_log = [Logged ''start'' (Message ''Analysis generation started'')]\<rparr> # operations w"
    by (simp add: ensure_entry_def set_entry_def log_def update_record_def update_fresh
        split: option.splits)
  ultimately show ?thesis using g e by blast
qed

lemma stages_without_export:
  "stages inp p s ob False w = spawnAnalysisProcess inp p s (getId ob) w"
  by (simp add: stages_def)

lemma stages_export_ok:
  assumes "runningProcesses w (identifier_of p s) = Some e"
    and "closeDatabase_fails inp = None" and "updateRN_complete inp = None"
    and "find (\<lambda>f. file_scenario_id f = s \<and> file_type f = ''road-network'') (scenarios_files w) = Some f"
    and "genVT_fails inp = None"
  shows "stages inp p s ob True w =
           spawnAnalysisProcess inp p s (getId ob)
             (w\<lparr>events := events w @ [CloseDatabase p s,
                     ServiceStart (ServiceRunner ''export-road-network'' p s (getId ob)),
                     ServiceStart (RoadNetworkVT p s (getId ob) (file_path f))],
                runningProcesses := (runningProcesses w)(identifier_of p s \<mapsto> e\<lparr>updateRN_slot := None, genVT_slot := None\<rparr>)\<rparr>)"
  using assms
  by (simp add: stages_def await_def closeDatabase_def updateRN_def generateTiles_def emit_def
      set_entry_def Let_def)

lemma stages_export_stopped:
  assumes "runningProcesses w (identifier_of p s) = Some e"
  shows "closeDatabase_fails inp = Some err \<Longrightarrow>
           fst (stages inp p s ob True w) = Rejected err
           \<and> events (snd (stages inp p s ob True w)) = events w @ [CloseDatabase p s]"
    and "closeDatabase_fails inp = None \<Longrightarrow> updateRN_complete inp = Some err \<Longrightarrow>
           fst (stages inp p s ob True w) = Rejected err
           \<and> events (snd (stages inp p s ob True w)) = events w @ [CloseDatabase p s,
                     ServiceStart (ServiceRunner ''export-road-network'' p s (getId ob))]"
    and "closeDatabase_fails inp = None \<Longrightarrow> updateRN_complete inp = None \<Longrightarrow>
         find (\<lambda>f. file_scenario_id f = s \<and> file_type f = ''road-network'') (scenarios_files w) = None \<Longrightarrow>
           fst (stages inp p s ob True w) = Rejected (TypeError ''path of undefined'')
           \<and> events (snd (stages inp p s ob True w)) = events w @ [CloseDatabase p s,
                     ServiceStart (ServiceRunner ''export-road-network'' p s (getId ob))]"
    and "closeDatabase_fails inp = None \<Longrightarrow> updateRN_complete inp = None \<Longrightarrow>
         find (\<lambda>f. file_scenario_id f = s \<and> file_type f = ''road-network'') (scenarios_files w) = Some f \<Longrightarrow>
         genVT_fails inp = Some err \<Longrightarrow>
           fst (stages inp p s ob True w) = Rejected err
           \<and> events (snd (stages inp p s ob True w)) = events w @ [CloseDatabase p s,
                     ServiceStart (ServiceRunner ''export-road-network'' p s (getId ob)),
                     ServiceStart (RoadNetworkVT p s (getId ob) (file_path f))]"
  using assms
  by (simp_all add: stages_def await_def closeDatabase_def updateRN_def generateTiles_def emit_def
      set_entry_def Let_def)

text \<open>
  C7. In a run of \<^verbatim>\<open>generateResults\<close> that got its operation started, the events are:
  when \<^verbatim>\<open>needExport\<close> is true, the closing of the database, then the start of the export
  service if the closing succeeded, then the start of the tile service if the export
  completed without error (and the road-network file exists), then the pull of the
  analysis stage if the tiles were generated; when \<^verbatim>\<open>needExport\<close> is false, the analysis
  stage alone. On the path without failure the analysis stage is reached in both
  cases, and spawns the container when the service is one of the two.
\<close>

theorem generateResults_stage_order:
  assumes "DS_ENV inp \<noteq> ''test''"
    and "\<not> list_ex (\<lambda>r. same_identity ''generate-analysis'' p s r \<and> op_status r = Running) (operations w)"
  shows "\<exists>rest.
     events (snd (generateResults inp p s w)) = events w @
       (if needExport inp w s then
          CloseDatabase p s #
          (if closeDatabase_fails inp \<noteq> None then [] else
           ServiceStart (ServiceRunner ''export-road-network'' p s (Some (new_id (operations w)))) #
           (if updateRN_complete inp \<noteq> None then [] else
            (case find (\<lambda>f. file_scenario_id f = s \<and> file_type f = ''road-network'') (scenarios_files w) of
               None \<Rightarrow> []
             | Some f \<Rightarrow>
                 ServiceStart (RoadNetworkVT p s (Some (new_id (operations w))) (file_path f)) #
                 (if genVT_fails inp \<noteq> None then [] else
                  Spawn (service (cfg inp)) [''pull'', container (cfg inp)]
                    [(''HYPER_ACCESS'', hyperAccess (cfg inp)), (''HYPER_SECRET'', hyperSecret (cfg inp))] # rest))))
        else Spawn (service (cfg inp)) [''pull'', container (cfg inp)]
               [(''HYPER_ACCESS'', hyperAccess (cfg inp)), (''HYPER_SECRET'', hyperSecret (cfg inp))] # rest)
   \<and> (service (cfg inp) = ''docker'' \<or> service (cfg inp) = ''hyper''
        \<longrightarrow> (\<exists>args env. rest = [Spawn (service (cfg inp)) (''run'' # args) env]))"
proof -
  let ?ob = "\<lparr>obj_id = Some (new_id (operations w)), obj_status = Running\<rparr>"
  let ?rn = "\<lambda>f. file_scenario_id f = s \<and> file_type f = ''road-network''"
  from generateResults_started [OF assms] obtain w3 e where
    g: "generateResults inp p s w = catch_error ?ob (stages inp p s ?ob (needExport inp w s) w3)"
    and ev: "events w3 = events w" and fs: "scenarios_files w3 = scenarios_files w"
    and en: "runningProcesses w3 (identifier_of p s) = Some e"
    by blast
  have i: "getId ?ob = Some (new_id (operations w))" by (simp add: getId_def)
  consider (direct) "\<not> needExport inp w s"
    | (closing) err where "needExport inp w s" "closeDatabase_fails inp = Some err"
    | (exporting) err where "needExport inp w s" "closeDatabase_fails inp = None"
        "updateRN_complete inp = Some err"
    | (no_file) "needExport inp w s" "closeDatabase_fails inp = None" "updateRN_complete inp = None"
        "find ?rn (scenarios_files w) = None"
    | (tiling) f err where "needExport inp w s" "closeDatabase_fails inp = None"
        "updateRN_complete inp = None" "find ?rn (scenarios_files w) = Some f" "genVT_fails inp = Some err"
    | (exported) f where "needExport inp w s" "closeDatabase_fails inp = None"
        "updateRN_complete inp = None" "find ?rn (scenarios_files w) = Some f" "genVT_fails inp = None"
    by (cases "closeDatabase_fails inp"; cases "updateRN_complete inp";
        cases "find ?rn (scenarios_files w)"; cases "genVT_fails inp") auto
  then show ?thesis
  proof cases
    case direct
    from spawnAnalysisProcess_events [of inp p s "getId ?ob" w3] obtain rest where
      "events (snd (spawnAnalysisProcess inp p s (getId ?ob) w3)) =
         events w3 @ Spawn (service (cfg inp)) [''pull'', container (cfg inp)] (hyper_env (cfg inp)) # rest"
      and "service (cfg inp) = ''docker'' \<or> service (cfg inp) = ''hyper''
             \<longrightarrow> (\<exists>args env. rest = [Spawn (service (cfg inp)) (''run'' # args) env])"
      by blast
    with direct ev show ?thesis
      by (intro exI [of _ rest]) (simp add: g catch_error_events stages_without_export hyper_env_def)
  next
    case closing
    with stages_export_stopped(1) [OF en closing(2)] ev show ?thesis
      by (intro exI [of _ "[Spawn (service (cfg inp)) [''run''] []]"]) (simp add: g catch_error_events)
  next
    case exporting
    with stages_export_stopped(2) [OF en exporting(2,3)] ev i show ?thesis
      by (intro exI [of _ "[Spawn (service (cfg inp)) [''run''] []]"]) (simp add: g catch_error_events)
  next
    case no_file
    with stages_export_stopped(3) [OF en no_file(2,3)] ev fs i show ?thesis
      by (intro exI [of _ "[Spawn (service (cfg inp)) [''run''] []]"]) (simp add: g catch_error_events)
  next
    case tiling
    with stages_export_stopped(4) [OF en tiling(2,3)] ev fs i show ?thesis
      by (intro exI [of _ "[Spawn (service (cfg inp)) [''run''] []]"]) (simp add: g catch_error_events)
  next
    case exported
    let ?w' = "w3\<lparr>events := events w3 @ [CloseDatabase p s,
                     ServiceStart (ServiceRunner ''export-road-network'' p s (getId ?ob)),
                     ServiceStart (RoadNetworkVT p s (getId ?ob) (file_path f))],
                runningProcesses := (runningProcesses w3)(identifier_of p s \<mapsto> e\<lparr>updateRN_slot := None, genVT_slot := None\<rparr>)\<rparr>"
    from exported fs have st: "stages inp p s ?ob True w3 = spawnAnalysisProcess inp p s (getId ?ob) ?w'"
      by (intro stages_export_ok [OF en]) simp_all
    from spawnAnalysisProcess_events [of inp p s "getId ?ob" ?w'] obtain rest where
      "events (snd (spawnAnalysisProcess inp p s (getId ?ob) ?w')) =
         events ?w' @ Spawn (service (cfg inp)) [''pull'', container (cfg inp)] (hyper_env (cfg inp)) # rest"
      and "service (cfg inp) = ''docker'' \<or> service (cfg inp) = ''hyper''
             \<longrightarrow> (\<exists>args env. rest = [Spawn (service (cfg inp)) (''run'' # args) env])"
      by blast
    with exported ev i show ?thesis
      by (intro exI [of _ rest]) (simp add: g catch_error_events st hyper_env_def)
  qed
qed

text \<open>The theorem at the scenario edited after its last generation, everything succeeding.\<close>

theorem generateResults_stage_order_witness:
  "needExport ex_inputs ex_world 1
   \<and> (\<exists>args env. events (snd (generateResults ex_inputs 1 1 ex_world)) =
        [CloseDatabase 1 1,
         ServiceStart (ServiceRunner ''export-road-network'' 1 1 (Some 1)),
         ServiceStart (RoadNetworkVT 1 1 (Some 1) ''scenario-1/rn.osm''),
         Spawn ''docker'' [''pull'', ''ram-analysis:latest'']
           [(''HYPER_ACCESS'', ''ha''), (''HYPER_SECRET'', ''hs'')],
         Spawn ''docker'' (''run'' # args) env])"
proof -
  have a: "DS_ENV ex_inputs \<noteq> ''test''"
    by (simp add: ex_inputs_def)
  have b: "\<not> list_ex (\<lambda>r. same_identity ''generate-analysis'' 1 1 r \<and> op_status r = Running)
               (operations ex_world)"
    by (simp add: ex_world_def)
  have n: "needExport ex_inputs ex_world 1"
    by (simp add: needExport_def export_settings_def List.map_filter_def at_index_def
        js_greater_def stamp_def getTime_def ex_inputs_def ex_world_def ex_settings_def)
  have c: "closeDatabase_fails ex_inputs = None" "updateRN_complete ex_inputs = None"
    "genVT_fails ex_inputs = None" "service (cfg ex_inputs) = ''docker''"
    "container (cfg ex_inputs) = ''ram-analysis:latest''"
    "hyperAccess (cfg ex_inputs) = ''ha''" "hyperSecret (cfg ex_inputs) = ''hs''"
    by (simp_all add: ex_inputs_def ex_cfg_def)
  have f: "find (\<lambda>f. file_scenario_id f = 1 \<and> file_type f = ''road-network'') (scenarios_files ex_world)
            = Some \<lparr>file_id = 1, file_project_id = 1, file_scenario_id = 1,
                    file_type = ''road-network'', file_path = ''scenario-1/rn.osm''\<rparr>"
    by (simp add: ex_world_def)
  have e: "events ex_world = []" "new_id (operations ex_world) = 1"
    by (simp_all add: ex_world_def new_id_def)
  from generateResults_stage_order [OF a b] n show ?thesis
    by (auto simp: c f e)
qed

lemma spawnAnalysisProcess_exit:
  assumes "service (cfg inp) = ''docker'' \<or> service (cfg inp) = ''hyper''"
    and "exit_with (run_child inp) = Exit code"
  shows "fst (spawnAnalysisProcess inp p s i w) =
           (if code \<noteq> 0 then Rejected (process_error (run_child inp)) else Resolved ())"
    and "runningProcesses (snd (spawnAnalysisProcess inp p s i w)) =
           (runningProcesses w)(identifier_of p s := None)"
    and "operations (snd (spawnAnalysisProcess inp p s i w)) = operations w"
  using assms
  by (auto simp: spawnAnalysisProcess_def await_def pullImage_def runProcess_def spawn_run_def
      emit_def delete_entry_def Let_def)

lemma error_data_process_error:
  "error_data (process_error ch) =
     (if stderr_chunks ch \<noteq> [] \<and> last (stderr_chunks ch) \<noteq> []
      then ErrorText (last (stderr_chunks ch)) else ErrorObject (Error []))"
  by (simp add: error_data_def process_error_def captured_def)

lemma generateResults_reaches_analysis:
  assumes "DS_ENV inp \<noteq> ''test''"
    and "\<not> list_ex (\<lambda>r. same_identity ''generate-analysis'' p s r \<and> op_status r = Running) (operations w)"
    and "needExport inp w s \<longrightarrow>
           closeDatabase_fails inp = None \<and> updateRN_complete inp = None \<and> genVT_fails inp = None
           \<and> find (\<lambda>f. file_scenario_id f = s \<and> file_type f = ''road-network'') (scenarios_files w) \<noteq> None"
  shows "\<exists>w'. generateResults inp p s w =
            catch_error \<lparr>obj_id = Some (new_id (operations w)), obj_status = Running\<rparr>
              (spawnAnalysisProcess inp p s (Some (new_id (operations w))) w')
          \<and> operations w' =
              \<lparr>op_id = new_id (operations w), op_name = ''generate-analysis'', op_projId = p,
               op_scId = s, op_status = Running,
               op_log = [Logged ''start'' (Message ''Analysis generation started'')]\<rparr> # operations w"
proof -
  let ?ob = "\<lparr>obj_id = Some (new_id (operations w)), obj_status = Running\<rparr>"
  from generateResults_started [OF assms(1,2)] obtain w3 e where
    g: "generateResults inp p s w = catch_error ?ob (stages inp p s ?ob (needExport inp w s) w3)"
    and fs: "scenarios_files w3 = scenarios_files w"
    and en: "runningProcesses w3 (identifier_of p s) = Some e"
    and ops: "operations w3 =
              \<lparr>op_id = new_id (operations w), op_name = ''generate-analysis'', op_projId = p,
               op_scId = s, op_status = Running,
               op_log = [Logged ''start'' (Message ''Analysis generation started'')]\<rparr> # operations w"
    by blast
  have i: "getId ?ob = Some (new_id (operations w))" by (simp add: getId_def)
  show ?thesis
  proof (cases "needExport inp w s")
    case False
    with g ops i show ?thesis by (intro exI [of _ w3]) (simp add: stages_without_export)
  next
    case True
    with assms(3) fs obtain f where
      "closeDatabase_fails inp = None" "updateRN_complete inp = None" "genVT_fails inp = None"
      "find (\<lambda>f. file_scenario_id f = s \<and> file_type f = ''road-network'') (scenarios_files w3) = Some f"
      by auto
    from stages_export_ok [OF en this(1,2,4,3), of ?ob] True g ops i show ?thesis
      by (intro exI [of _ "w3\<lparr>events := events w3 @ [CloseDatabase p s,
                     ServiceStart (ServiceRunner ''export-road-network'' p s (getId ?ob)),
                     ServiceStart (RoadNetworkVT p s (getId ?ob) (file_path f))],
                runningProcesses := (runningProcesses w3)(identifier_of p s \<mapsto> e\<lparr>updateRN_slot := None, genVT_slot := None\<rparr>)\<rparr>"])
        simp
  qed
qed

text \<open>
  C4. In a run of \<^verbatim>\<open>generateResults\<close> that reaches the analysis container (operation
  started, export stages not needed or completed, service one of the two): when the
  container exits with a code other than 0, the stage rejects, the operation record
  gets the status error and a closing entry whose data is the stderr text that was
  captured (the chunk seen last; an error object with empty message when nothing or
  an empty chunk was captured), and the registry entry of the job key is gone; when it
  exits with 0, the stage resolves, the registry entry is gone as well, and the
  operation record stays as started.
\<close>

theorem generateResults_analysis_exit:
  assumes "DS_ENV inp \<noteq> ''test''"
    and "\<not> list_ex (\<lambda>r. same_identity ''generate-analysis'' p s r \<and> op_status r = Running) (operations w)"
    and "needExport inp w s \<longrightarrow>
           closeDatabase_fails inp = None \<and> updateRN_complete inp = None \<and> genVT_fails inp = None
           \<and> find (\<lambda>f. file_scenario_id f = s \<and> file_type f = ''road-network'') (scenarios_files w) \<noteq> None"
    and "service (cfg inp) = ''docker'' \<or> service (cfg inp) = ''hyper''"
    and "exit_with (run_child inp) = Exit code"
  shows "runningProcesses (snd (generateResults inp p s w)) (identifier_of p s) = None
       \<and> (\<forall>i w'. fst (spawnAnalysisProcess inp p s i w') =
            (if code \<noteq> 0 then Rejected (process_error (run_child inp)) else Resolved ()))
       \<and> operations (snd (generateResults inp p s w)) =
           \<lparr>op_id = new_id (operations w), op_name = ''generate-analysis'', op_projId = p, op_scId = s,
            op_status = (if code \<noteq> 0 then Failed else Running),
            op_log = Logged ''start'' (Message ''Analysis generation started'') #
              (if code \<noteq> 0
               then [Closing Failed
                       (if stderr_chunks (run_child inp) \<noteq> [] \<and> last (stderr_chunks (run_child inp)) \<noteq> []
                        then ErrorText (last (stderr_chunks (run_child inp)))
                        else ErrorObject (Error []))]
               else [])\<rparr> # operations w"
proof -
  let ?ob = "\<lparr>obj_id = Some (new_id (operations w)), obj_status = Running\<rparr>"
  from generateResults_reaches_analysis [OF assms(1,2,3)] obtain w' where
    g: "generateResults inp p s w =
          catch_error ?ob (spawnAnalysisProcess inp p s (Some (new_id (operations w))) w')"
    and ops: "operations w' =
              \<lparr>op_id = new_id (operations w), op_name = ''generate-analysis'', op_projId = p,
               op_scId = s, op_status = Running,
               op_log = [Logged ''start'' (Message ''Analysis generation started'')]\<rparr> # operations w"
    by blast
  note ex = spawnAnalysisProcess_exit [OF assms(4,5)]
  show ?thesis
  proof (cases "code = 0")
    case True
    with ex [of p s "Some (new_id (operations w))" w'] ops show ?thesis
      by (simp add: g catch_error_def ex(1))
  next
    case False
    with ex [of p s "Some (new_id (operations w))" w'] ops show ?thesis
      by (simp add: g catch_error_def ex(1) handle_error_def isCompleted_def finish_def
          update_record_def update_fresh error_data_process_error)
  qed
qed

text \<open>The theorem at the container that fails after two chunks on its stderr.\<close>

theorem generateResults_analysis_exit_witness:
  "exit_with (run_child ex_inputs_failing) = Exit 1
   \<and> runningProcesses (snd (generateResults ex_inputs_failing 1 1 ex_world)) (identifier_of 1 1) = None
   \<and> operations (snd (generateResults ex_inputs_failing 1 1 ex_world)) =
       [\<lparr>op_id = 1, op_name = ''generate-analysis'', op_projId = 1, op_scId = 1,
         op_status = Failed,
         op_log = [Logged ''start'' (Message ''Analysis generation started''),
                   Closing Failed (ErrorText ''Error: out of memory'')]\<rparr>]"
proof -
  have a: "DS_ENV ex_inputs_failing \<noteq> ''test''"
    by (simp add: ex_inputs_failing_def ex_inputs_def)
  have b: "\<not> list_ex (\<lambda>r. same_identity ''generate-analysis'' 1 1 r \<and> op_status r = Running)
               (operations ex_world)"
    by (simp add: ex_world_def)
  have c: "needExport ex_inputs_failing ex_world 1 \<longrightarrow>
           closeDatabase_fails ex_inputs_failing = None \<and> updateRN_complete ex_inputs_failing = None
           \<and> genVT_fails ex_inputs_failing = None
           \<and> find (\<lambda>f. file_scenario_id f = 1 \<and> file_type f = ''road-network'') (scenarios_files ex_world) \<noteq> None"
    by (simp add: ex_inputs_failing_def ex_inputs_def ex_world_def)
  have d: "service (cfg ex_inputs_failing) = ''docker'' \<or> service (cfg ex_inputs_failing) = ''hyper''"
    by (simp add: ex_inputs_failing_def ex_inputs_def ex_cfg_def)
  have e: "exit_with (run_child ex_inputs_failing) = Exit 1"
    by (simp add: ex_inputs_failing_def)
  have f: "operations ex_world = []" "stderr_chunks (run_child ex_inputs_failing) =
             [''Loading road network'', ''Error: out of memory'']"
    by (simp_all add: ex_world_def ex_inputs_failing_def)
  from generateResults_analysis_exit [OF a b c d e] e show ?thesis
    by (simp add: f new_id_def)
qed

end
